theory Spec2Isabelle
  imports Complex_Main
begin

section \<open>JavaScript numbers\<close>

text \<open>
  The simulator computes with JavaScript numbers. A number is modelled as one of the
  special values \<open>NaN\<close>, \<open>-Infinity\<close>, \<open>+Infinity\<close>, or a finite value. Finite
  values are idealised as real numbers: arithmetic on them is exact (no rounding, no
  overflow to an infinity, no underflow), and the two zeros of the binary64 format are
  identified. Everything stated below about finite values is therefore a statement
  about the formulas of the source evaluated exactly.
\<close>

datatype number = NaN | NegInf | Fin real | PosInf

text \<open>Comparison operators: every comparison with \<open>NaN\<close> is false.\<close>

fun lt :: "number \<Rightarrow> number \<Rightarrow> bool" where
  "lt NaN _ = False"
| "lt _ NaN = False"
| "lt _ NegInf = False"
| "lt NegInf _ = True"
| "lt PosInf _ = False"
| "lt (Fin x) (Fin y) = (x < y)"
| "lt (Fin x) PosInf = True"

fun le :: "number \<Rightarrow> number \<Rightarrow> bool" where
  "le NaN _ = False"
| "le _ NaN = False"
| "le NegInf _ = True"
| "le _ PosInf = True"
| "le PosInf _ = False"
| "le (Fin x) (Fin y) = (x \<le> y)"
| "le (Fin x) NegInf = False"

definition gt :: "number \<Rightarrow> number \<Rightarrow> bool" where
  "gt x y = lt y x"

definition ge :: "number \<Rightarrow> number \<Rightarrow> bool" where
  "ge x y = le y x"

fun isNaN :: "number \<Rightarrow> bool" where
  "isNaN NaN = True"
| "isNaN _ = False"

text \<open>Unary minus, \<open>+\<close>, \<open>-\<close>, \<open>*\<close> and \<open>/\<close>.\<close>

fun neg :: "number \<Rightarrow> number" where
  "neg NaN = NaN"
| "neg NegInf = PosInf"
| "neg (Fin x) = Fin (- x)"
| "neg PosInf = NegInf"

fun add :: "number \<Rightarrow> number \<Rightarrow> number" where
  "add NaN _ = NaN"
| "add _ NaN = NaN"
| "add NegInf PosInf = NaN"
| "add PosInf NegInf = NaN"
| "add NegInf _ = NegInf"
| "add _ NegInf = NegInf"
| "add PosInf _ = PosInf"
| "add _ PosInf = PosInf"
| "add (Fin x) (Fin y) = Fin (x + y)"

definition sub :: "number \<Rightarrow> number \<Rightarrow> number" where
  "sub x y = add x (neg y)"

text \<open>
  The sign of a non-\<open>NaN\<close> number as an integer; zero has sign \<open>0\<close>. An infinite
  product is \<open>NaN\<close> when the other factor is zero and carries the product of the signs
  otherwise.
\<close>

fun sign :: "number \<Rightarrow> int" where
  "sign NaN = 0"
| "sign NegInf = - 1"
| "sign (Fin x) = (if x < 0 then - 1 else if x = 0 then 0 else 1)"
| "sign PosInf = 1"

definition signed_inf :: "int \<Rightarrow> number" where
  "signed_inf s = (if s = 0 then NaN else if s < 0 then NegInf else PosInf)"

fun mul :: "number \<Rightarrow> number \<Rightarrow> number" where
  "mul NaN _ = NaN"
| "mul _ NaN = NaN"
| "mul (Fin x) (Fin y) = Fin (x * y)"
| "mul x y = signed_inf (sign x * sign y)"

text \<open>
  Division. A finite nonzero value divided by zero is an infinity; since the two zeros
  are identified the divisor zero is read as \<open>+0\<close>. No division of the functions
  modelled below has a zero divisor.
\<close>

fun divide :: "number \<Rightarrow> number \<Rightarrow> number" where
  "divide NaN _ = NaN"
| "divide _ NaN = NaN"
| "divide (Fin x) (Fin y) = (if y = 0 then signed_inf (sign (Fin x)) else Fin (x / y))"
| "divide (Fin x) _ = Fin 0"
| "divide x (Fin y) = signed_inf (sign x * (if y < 0 then - 1 else 1))"
| "divide _ _ = NaN"

subsection \<open>The functions of \<open>Math\<close> that the source calls\<close>

fun Math_sqrt :: "number \<Rightarrow> number" where
  "Math_sqrt NaN = NaN"
| "Math_sqrt NegInf = NaN"
| "Math_sqrt (Fin x) = (if x < 0 then NaN else Fin (sqrt x))"
| "Math_sqrt PosInf = PosInf"

fun Math_log10 :: "number \<Rightarrow> number" where
  "Math_log10 NaN = NaN"
| "Math_log10 NegInf = NaN"
| "Math_log10 (Fin x) = (if x < 0 then NaN else if x = 0 then NegInf else Fin (log 10 x))"
| "Math_log10 PosInf = PosInf"

fun Math_exp :: "number \<Rightarrow> number" where
  "Math_exp NaN = NaN"
| "Math_exp NegInf = Fin 0"
| "Math_exp (Fin x) = Fin (exp x)"
| "Math_exp PosInf = PosInf"

text \<open>\<open>Math.max\<close> and \<open>Math.min\<close> of two arguments: \<open>NaN\<close> if either is \<open>NaN\<close>.\<close>

definition Math_max :: "number \<Rightarrow> number \<Rightarrow> number" where
  "Math_max x y = (if isNaN x \<or> isNaN y then NaN else if lt x y then y else x)"

definition Math_min :: "number \<Rightarrow> number \<Rightarrow> number" where
  "Math_min x y = (if isNaN x \<or> isNaN y then NaN else if lt y x then y else x)"

text \<open>\<open>Math.round\<close>: the nearest integer, a tie going towards \<open>+Infinity\<close>.\<close>

fun Math_round :: "number \<Rightarrow> number" where
  "Math_round (Fin x) = Fin (of_int \<lfloor>x + 1 / 2\<rfloor>)"
| "Math_round x = x"

text \<open>
  \<open>Math.pow\<close>, following the case list of the language standard for
  \<open>Number::exponentiate\<close> (with the two zeros identified).
\<close>

definition odd_integer :: "real \<Rightarrow> bool" where
  "odd_integer y = (y = of_int \<lfloor>y\<rfloor> \<and> odd \<lfloor>y\<rfloor>)"

fun Math_pow :: "number \<Rightarrow> number \<Rightarrow> number" where
  "Math_pow _ NaN = NaN"
| "Math_pow NaN (Fin y) = (if y = 0 then Fin 1 else NaN)"
| "Math_pow NaN _ = NaN"
| "Math_pow PosInf PosInf = PosInf"
| "Math_pow PosInf NegInf = Fin 0"
| "Math_pow PosInf (Fin y) = (if y = 0 then Fin 1 else if 0 < y then PosInf else Fin 0)"
| "Math_pow NegInf PosInf = PosInf"
| "Math_pow NegInf NegInf = Fin 0"
| "Math_pow NegInf (Fin y) =
     (if y = 0 then Fin 1
      else if 0 < y then (if odd_integer y then NegInf else PosInf)
      else Fin 0)"
| "Math_pow (Fin x) PosInf =
     (if \<bar>x\<bar> > 1 then PosInf else if \<bar>x\<bar> = 1 then NaN else Fin 0)"
| "Math_pow (Fin x) NegInf =
     (if \<bar>x\<bar> > 1 then Fin 0 else if \<bar>x\<bar> = 1 then NaN else PosInf)"
| "Math_pow (Fin x) (Fin y) =
     (if y = 0 then Fin 1
      else if x = 0 then (if 0 < y then Fin 0 else PosInf)
      else if 0 < x then Fin (x powr y)
      else if y = of_int \<lfloor>y\<rfloor> then Fin (power_int x \<lfloor>y\<rfloor>)
      else NaN)"

section \<open>The attenuation model\<close>

text \<open>The table \<open>ATTENUATION_CONSTANTS\<close>, with fields \<open>a\<close>, \<open>b\<close>, \<open>c\<close>, \<open>d\<close>.\<close>

record attenuation_constants =
  const_a :: number
  const_b :: number
  const_c :: number
  const_d :: number

definition ATTENUATION_CONSTANTS :: attenuation_constants where
  "ATTENUATION_CONSTANTS =
     \<lparr> const_a = Fin (- 35 / 10), const_b = Fin (18 / 10),
       const_c = Fin (35 / 10), const_d = Fin (2 / 1000) \<rparr>"

text \<open>
  The three \<open>throw new Error(...)\<close> of \<open>calculateIntensity\<close>; each message names the
  offending value, which the error carries.
\<close>

datatype error =
    InvalidMagnitude number
  | InvalidDepth number
  | InvalidDistance number

definition calculateIntensity :: "number \<Rightarrow> number \<Rightarrow> number \<Rightarrow> error + number" where
  "calculateIntensity magnitude depth distance =
     (if lt magnitude (Fin 0) \<or> gt magnitude (Fin 10) then Inl (InvalidMagnitude magnitude)
      else if lt depth (Fin 0) \<or> gt depth (Fin 700) then Inl (InvalidDepth depth)
      else if lt distance (Fin 0) then Inl (InvalidDistance distance)
      else
        let hypocentralDistance = Math_sqrt (add (mul distance distance) (mul depth depth));
            R = Math_max hypocentralDistance (Fin 1);
            intensity =
              sub (sub (add (const_a ATTENUATION_CONSTANTS)
                            (mul (const_b ATTENUATION_CONSTANTS) magnitude))
                       (mul (const_c ATTENUATION_CONSTANTS) (Math_log10 R)))
                  (mul (const_d ATTENUATION_CONSTANTS) R)
        in Inr (Math_max intensity (Fin 0)))"

text \<open>
  \<open>estimateFeltRadius\<close>: the state of the \<open>while\<close> loop is \<open>minDist\<close>, \<open>maxDist\<close> and
  \<open>iterations\<close>; the loop function returns the state in which the loop condition fails,
  or the error that \<open>calculateIntensity\<close> threw inside the loop. The parameter
  \<open>targetIntensity\<close> is always given here; a caller that omits it passes the default
  \<open>Fin 3\<close>.
\<close>

definition tolerance :: number where
  "tolerance = Fin 1"

definition maxIterations :: nat where
  "maxIterations = 50"

function feltRadiusLoop ::
  "number \<Rightarrow> number \<Rightarrow> number \<Rightarrow> number \<Rightarrow> number \<Rightarrow> nat \<Rightarrow> error + (number \<times> number \<times> nat)"
where
  "feltRadiusLoop magnitude depth targetIntensity minDist maxDist iterations =
     (if gt (sub maxDist minDist) tolerance \<and> iterations < maxIterations then
        let midDist = divide (add minDist maxDist) (Fin 2) in
        case calculateIntensity magnitude depth midDist of
          Inl e \<Rightarrow> Inl e
        | Inr intensity \<Rightarrow>
            if gt intensity targetIntensity
            then feltRadiusLoop magnitude depth targetIntensity midDist maxDist (iterations + 1)
            else feltRadiusLoop magnitude depth targetIntensity minDist midDist (iterations + 1)
      else Inr (minDist, maxDist, iterations))"
  by pat_completeness auto
termination
  by (relation "measure (\<lambda>(m, d, t, lo, hi, i). maxIterations - i)") auto

declare feltRadiusLoop.simps [simp del]

definition estimateFeltRadius :: "number \<Rightarrow> number \<Rightarrow> number \<Rightarrow> error + number" where
  "estimateFeltRadius magnitude depth targetIntensity =
     (case feltRadiusLoop magnitude depth targetIntensity (Fin 0) (Fin 5000) 0 of
        Inl e \<Rightarrow> Inl e
      | Inr (minDist, maxDist, iterations) \<Rightarrow> Inr (divide (add minDist maxDist) (Fin 2)))"

section \<open>The Modified Mercalli scale\<close>

record mmi_level =
  level :: string
  numericLevel :: nat
  minIntensity :: number
  maxIntensity :: number
  name :: string
  description :: string
  shaking :: string
  damage :: string
  color :: string

definition MMI_I :: mmi_level where
  "MMI_I =
     \<lparr> level = ''I'', numericLevel = 1, minIntensity = Fin 0, maxIntensity = Fin (15 / 10),
       name = ''Not felt'',
       description = ''Not felt except by a very few under especially favorable conditions.'',
       shaking = ''Not felt'', damage = ''None'', color = ''#FFFFFF'' \<rparr>"

definition MMI_II :: mmi_level where
  "MMI_II =
     \<lparr> level = ''II'', numericLevel = 2, minIntensity = Fin (15 / 10), maxIntensity = Fin (25 / 10),
       name = ''Weak'',
       description = ''Felt only by a few persons at rest, especially on upper floors of buildings.'',
       shaking = ''Weak'', damage = ''None'', color = ''#ACD8E9'' \<rparr>"

definition MMI_III :: mmi_level where
  "MMI_III =
     \<lparr> level = ''III'', numericLevel = 3, minIntensity = Fin (25 / 10), maxIntensity = Fin (35 / 10),
       name = ''Weak'',
       description = ''Felt quite noticeably by persons indoors. Many people do not recognize it as an earthquake. Standing motor cars may rock slightly.'',
       shaking = ''Weak'', damage = ''None'', color = ''#ACD8E9'' \<rparr>"

definition MMI_IV :: mmi_level where
  "MMI_IV =
     \<lparr> level = ''IV'', numericLevel = 4, minIntensity = Fin (35 / 10), maxIntensity = Fin (45 / 10),
       name = ''Light'',
       description = ''Felt indoors by many, outdoors by few. Sensation like heavy truck striking building. Dishes, windows, doors disturbed.'',
       shaking = ''Light'', damage = ''None'', color = ''#7BC5A6'' \<rparr>"

definition MMI_V :: mmi_level where
  "MMI_V =
     \<lparr> level = ''V'', numericLevel = 5, minIntensity = Fin (45 / 10), maxIntensity = Fin (55 / 10),
       name = ''Moderate'',
       description = ''Felt by nearly everyone; many awakened. Some dishes, windows broken. Unstable objects overturned.'',
       shaking = ''Moderate'', damage = ''Very light'', color = ''#FDE357'' \<rparr>"

definition MMI_VI :: mmi_level where
  "MMI_VI =
     \<lparr> level = ''VI'', numericLevel = 6, minIntensity = Fin (55 / 10), maxIntensity = Fin (65 / 10),
       name = ''Strong'',
       description = ''Felt by all, many frightened. Some heavy furniture moved; a few instances of fallen plaster. Damage slight.'',
       shaking = ''Strong'', damage = ''Light'', color = ''#FDB462'' \<rparr>"

definition MMI_VII :: mmi_level where
  "MMI_VII =
     \<lparr> level = ''VII'', numericLevel = 7, minIntensity = Fin (65 / 10), maxIntensity = Fin (75 / 10),
       name = ''Very strong'',
       description = ''Damage negligible in buildings of good design and construction; slight to moderate in well-built ordinary structures; considerable damage in poorly built or badly designed structures.'',
       shaking = ''Very strong'', damage = ''Moderate'', color = ''#FB923C'' \<rparr>"

definition MMI_VIII :: mmi_level where
  "MMI_VIII =
     \<lparr> level = ''VIII'', numericLevel = 8, minIntensity = Fin (75 / 10), maxIntensity = Fin (85 / 10),
       name = ''Severe'',
       description = ''Damage slight in specially designed structures; considerable damage in ordinary substantial buildings with partial collapse. Damage great in poorly built structures. Heavy furniture overturned.'',
       shaking = ''Severe'', damage = ''Moderate to heavy'', color = ''#F87171'' \<rparr>"

definition MMI_IX :: mmi_level where
  "MMI_IX =
     \<lparr> level = ''IX'', numericLevel = 9, minIntensity = Fin (85 / 10), maxIntensity = Fin (95 / 10),
       name = ''Violent'',
       description = ''Damage considerable in specially designed structures; well-designed frame structures thrown out of plumb. Buildings shifted off foundations. Ground cracked conspicuously.'',
       shaking = ''Violent'', damage = ''Heavy'', color = ''#DC2626'' \<rparr>"

definition MMI_X :: mmi_level where
  "MMI_X =
     \<lparr> level = ''X'', numericLevel = 10, minIntensity = Fin (95 / 10), maxIntensity = Fin (105 / 10),
       name = ''Extreme'',
       description = ''Some well-built wooden structures destroyed; most masonry and frame structures destroyed with foundations. Rails bent.'',
       shaking = ''Extreme'', damage = ''Very heavy'', color = ''#991B1B'' \<rparr>"

definition MMI_XI :: mmi_level where
  "MMI_XI =
     \<lparr> level = ''XI'', numericLevel = 11, minIntensity = Fin (105 / 10), maxIntensity = Fin (115 / 10),
       name = ''Extreme'',
       description = ''Few, if any structures remain standing. Bridges destroyed. Rails bent greatly.'',
       shaking = ''Extreme'', damage = ''Very heavy'', color = ''#7F1D1D'' \<rparr>"

definition MMI_XII :: mmi_level where
  "MMI_XII =
     \<lparr> level = ''XII'', numericLevel = 12, minIntensity = Fin (115 / 10), maxIntensity = PosInf,
       name = ''Extreme'',
       description = ''Total damage. Waves seen on ground surfaces. Objects thrown into the air.'',
       shaking = ''Extreme'', damage = ''Very heavy'', color = ''#450A0A'' \<rparr>"

definition MMI_SCALE :: "mmi_level list" where
  "MMI_SCALE =
     [MMI_I, MMI_II, MMI_III, MMI_IV, MMI_V, MMI_VI,
      MMI_VII, MMI_VIII, MMI_IX, MMI_X, MMI_XI, MMI_XII]"

text \<open>
  \<open>getMMI\<close> returns either the table entry itself (for a negative or \<open>NaN\<close> argument)
  or a copy of an entry with the field \<open>intensityValue\<close> added (here
  \<open>result_intensityValue\<close>, which is \<open>None\<close> when the field is absent).
\<close>

record mmi_result = mmi_level +
  result_intensityValue :: "number option"

definition with_intensityValue :: "mmi_level \<Rightarrow> number option \<Rightarrow> mmi_result" where
  "with_intensityValue l v = mmi_level.extend l (mmi_result.fields v)"

text \<open>The \<open>for\<close> loop of \<open>getMMI\<close>: the first entry, in table order, that contains the value.\<close>

fun findLevel :: "mmi_level list \<Rightarrow> number \<Rightarrow> mmi_level option" where
  "findLevel [] intensityValue = None"
| "findLevel (l # ls) intensityValue =
     (if ge intensityValue (minIntensity l) \<and> lt intensityValue (maxIntensity l)
      then Some l else findLevel ls intensityValue)"

definition getMMI :: "number \<Rightarrow> mmi_result" where
  "getMMI intensityValue =
     (if lt intensityValue (Fin 0) \<or> isNaN intensityValue
      then with_intensityValue (MMI_SCALE ! 0) None
      else case findLevel MMI_SCALE intensityValue of
             Some l \<Rightarrow> with_intensityValue l (Some intensityValue)
           | None \<Rightarrow>
               with_intensityValue (MMI_SCALE ! (length MMI_SCALE - 1)) (Some intensityValue))"

definition getMMILevel :: "number \<Rightarrow> string" where
  "getMMILevel intensityValue = level (getMMI intensityValue)"

definition getMMINumeric :: "number \<Rightarrow> nat" where
  "getMMINumeric intensityValue = numericLevel (getMMI intensityValue)"

section \<open>The damage model\<close>

record damage_parameters =
  param_k :: number
  param_threshold :: number

definition DAMAGE_PARAMETERS :: damage_parameters where
  "DAMAGE_PARAMETERS = \<lparr> param_k = Fin (15 / 10), param_threshold = Fin 6 \<rparr>"

definition estimateDamage :: "number \<Rightarrow> number" where
  "estimateDamage intensityValue =
     (if lt intensityValue (Fin 0) \<or> isNaN intensityValue then Fin 0
      else
        let damagePercent =
              divide (Fin 100)
                (add (Fin 1)
                   (Math_exp (mul (neg (param_k DAMAGE_PARAMETERS))
                                  (sub intensityValue (param_threshold DAMAGE_PARAMETERS)))))
        in Math_max (Fin 0) (Math_min (Fin 100) damagePercent))"

record damage_category =
  category :: string
  cat_description :: string
  cat_color :: string
  severity :: nat

definition getDamageCategory :: "number \<Rightarrow> damage_category" where
  "getDamageCategory damagePercent =
     (if lt damagePercent (Fin 5) then
        \<lparr> category = ''None'',
          cat_description = ''No significant damage expected'',
          cat_color = ''#10B981'', severity = 0 \<rparr>
      else if lt damagePercent (Fin 15) then
        \<lparr> category = ''Very Light'',
          cat_description = ''Minor cosmetic damage, no structural issues'',
          cat_color = ''#84CC16'', severity = 1 \<rparr>
      else if lt damagePercent (Fin 30) then
        \<lparr> category = ''Light'',
          cat_description = ''Some cracks in walls, minor damage to chimneys'',
          cat_color = ''#FDE047'', severity = 2 \<rparr>
      else if lt damagePercent (Fin 50) then
        \<lparr> category = ''Moderate'',
          cat_description = ''Damage to chimneys, plaster falls, some structural damage'',
          cat_color = ''#FB923C'', severity = 3 \<rparr>
      else if lt damagePercent (Fin 70) then
        \<lparr> category = ''Heavy'',
          cat_description = ''Significant structural damage, partial collapse possible'',
          cat_color = ''#F87171'', severity = 4 \<rparr>
      else
        \<lparr> category = ''Very Heavy'',
          cat_description = ''Severe structural damage, widespread collapse'',
          cat_color = ''#DC2626'', severity = 5 \<rparr>)"



record casualty_risk =
  low :: number
  medium :: number
  high :: number
  risk_description :: string
  warning :: "string option"

definition estimateCasualtyRisk :: "number \<Rightarrow> number \<Rightarrow> casualty_risk" where
  "estimateCasualtyRisk totalPopulation damagePercent =
     (if lt damagePercent (Fin 60) then
        \<lparr> low = Fin 0, medium = Fin 0, high = Fin 0,
          risk_description = ''Casualties unlikely at this damage level'',
          warning = None \<rparr>
      else
        let fatalityRate =
              mul (Math_pow (divide (sub damagePercent (Fin 60)) (Fin 40)) (Fin 2))
                  (Fin (1 / 100));
            estimated = Math_round (mul totalPopulation fatalityRate)
        in \<lparr> low = Math_round (mul estimated (Fin (5 / 10))),
             medium = estimated,
             high = Math_round (mul estimated (Fin 2)),
             risk_description = ''Estimated casualties (very rough approximation)'',
             warning = Some ''This is a simplified model - actual casualties depend on many factors including time of day, building codes, and emergency response'' \<rparr>)"

section \<open>Notions used in the statements\<close>

text \<open>
  The value of the local constant \<open>hypocentralDistance\<close> of \<open>calculateIntensity\<close>, as
  a function of depth and distance.
\<close>

definition hypocentral :: "number \<Rightarrow> number \<Rightarrow> number" where
  "hypocentral depth distance = Math_sqrt (add (mul distance distance) (mul depth depth))"

text \<open>
  The attenuation formula \<open>a + b*M - c*log10(R) - d*R\<close> on real numbers, with the
  constants of \<open>ATTENUATION_CONSTANTS\<close>. It is used to name the value that
  \<open>calculateIntensity\<close> computes on finite arguments (lemma \<open>calculateIntensity_Fin\<close>).
\<close>

definition intensity_formula :: "real \<Rightarrow> real \<Rightarrow> real" where
  "intensity_formula m r = - 35 / 10 + 18 / 10 * m - 35 / 10 * log 10 r - 2 / 1000 * r"

text \<open>
  The logistic curve \<open>100 / (1 + e^(-k*(I - threshold)))\<close> on real numbers, with the
  constants of \<open>DAMAGE_PARAMETERS\<close>. It names the value that \<open>estimateDamage\<close>
  computes on a finite non-negative argument (lemma \<open>estimateDamage_Fin\<close>).
\<close>

definition logistic :: "real \<Rightarrow> real" where
  "logistic v = 100 / (1 + exp (- (15 / 10) * (v - 6)))"

text \<open>
  Membership of an intensity in a band of the scale, as the specification words it:
  \<open>minIntensity \<le> x < maxIntensity\<close>, the band whose upper end is \<open>Infinity\<close> being
  open-ended (it contains every \<open>x\<close> at or above its \<open>minIntensity\<close>, \<open>Infinity\<close>
  included).
\<close>

definition inBand :: "number \<Rightarrow> mmi_level \<Rightarrow> bool" where
  "inBand x b =
     (le (minIntensity b) x \<and> (lt x (maxIntensity b) \<or> maxIntensity b = PosInf))"

section \<open>Properties of the attenuation model\<close>

subsection \<open>Case analysis on bounded numbers\<close>

lemma le_Fin_cases:
  assumes "le (Fin a) v" "le v (Fin b)"
  obtains r where "v = Fin r" "a \<le> r" "r \<le> b"
  using assms by (cases v) auto

lemma le_Fin_lower_cases:
  assumes "le (Fin a) v"
  obtains r where "v = Fin r" "a \<le> r" | "v = PosInf"
  using assms by (cases v) auto

subsection \<open>The value computed on accepted arguments\<close>

lemma calculateIntensity_Fin:
  assumes "0 \<le> m" "m \<le> 10" "0 \<le> d" "d \<le> 700" "0 \<le> x"
  shows "calculateIntensity (Fin m) (Fin d) (Fin x) =
           Inr (Fin (max (intensity_formula m (max (sqrt (x * x + d * d)) 1)) 0))"
proof -
  have nn: "\<not> x * x + d * d < 0"
    by (simp add: not_less)
  have r: "Math_max (Math_sqrt (add (mul (Fin x) (Fin x)) (mul (Fin d) (Fin d)))) (Fin 1)
             = Fin (max (sqrt (x * x + d * d)) 1)"
    using nn by (simp add: Math_max_def max_def)
  have pos: "0 < max (sqrt (x * x + d * d)) 1"
    by simp
  show ?thesis
    using assms pos unfolding calculateIntensity_def Let_def r
    by (simp add: gt_def sub_def ATTENUATION_CONSTANTS_def Math_max_def
        intensity_formula_def max_def not_less)
qed

lemma calculateIntensity_PosInf:
  assumes "0 \<le> m" "m \<le> 10" "0 \<le> d" "d \<le> 700"
  shows "calculateIntensity (Fin m) (Fin d) PosInf = Inr (Fin 0)"
  using assms
  by (simp add: calculateIntensity_def Let_def gt_def sub_def ATTENUATION_CONSTANTS_def
      Math_max_def signed_inf_def)

lemma hypocentral_Fin: "hypocentral (Fin d) (Fin x) = Fin (sqrt (x * x + d * d))"
  by (simp add: hypocentral_def not_less)

lemma intensity_formula_mono_magnitude:
  "m1 \<le> m2 \<Longrightarrow> intensity_formula m1 r \<le> intensity_formula m2 r"
  by (simp add: intensity_formula_def)

lemma intensity_formula_antimono_distance:
  assumes "0 < r1" "r1 \<le> r2"
  shows "intensity_formula m r2 \<le> intensity_formula m r1"
proof -
  have "log 10 r1 \<le> log 10 r2"
    using assms by simp
  with assms show ?thesis
    unfolding intensity_formula_def by linarith
qed

subsection \<open>Rejected arguments\<close>

text \<open>
  Claim C3. \<open>calculateIntensity\<close> throws exactly when the magnitude is below 0 or above
  10, or the depth is below 0 or above 700, or the distance is below 0, the comparisons
  being those of the language; the error names the first offending argument in the order
  magnitude, depth, distance. On every other triple it returns a value. A \<open>NaN\<close>
  argument fails none of the comparisons, so \<open>NaN\<close> arguments are not rejected: the call
  returns (the value \<open>NaN\<close>) unless another argument is out of range.
\<close>

theorem calculateIntensity_rejects_exactly_out_of_range:
  "(calculateIntensity magnitude depth distance = Inl (InvalidMagnitude magnitude)
      \<longleftrightarrow> lt magnitude (Fin 0) \<or> gt magnitude (Fin 10))
   \<and> (calculateIntensity magnitude depth distance = Inl (InvalidDepth depth)
      \<longleftrightarrow> \<not> (lt magnitude (Fin 0) \<or> gt magnitude (Fin 10))
          \<and> (lt depth (Fin 0) \<or> gt depth (Fin 700)))
   \<and> (calculateIntensity magnitude depth distance = Inl (InvalidDistance distance)
      \<longleftrightarrow> \<not> (lt magnitude (Fin 0) \<or> gt magnitude (Fin 10))
          \<and> \<not> (lt depth (Fin 0) \<or> gt depth (Fin 700))
          \<and> lt distance (Fin 0))
   \<and> ((\<exists>e. calculateIntensity magnitude depth distance = Inl e)
      \<longleftrightarrow> lt magnitude (Fin 0) \<or> gt magnitude (Fin 10)
          \<or> lt depth (Fin 0) \<or> gt depth (Fin 700)
          \<or> lt distance (Fin 0))
   \<and> ((\<exists>v. calculateIntensity magnitude depth distance = Inr v)
      \<longleftrightarrow> \<not> (lt magnitude (Fin 0) \<or> gt magnitude (Fin 10)
          \<or> lt depth (Fin 0) \<or> gt depth (Fin 700)
          \<or> lt distance (Fin 0)))
   \<and> calculateIntensity NaN NaN NaN = Inr NaN
   \<and> calculateIntensity NaN (Fin 35) (Fin 335) = Inr NaN
   \<and> calculateIntensity (Fin 8) NaN (Fin 335) = Inr NaN
   \<and> calculateIntensity (Fin 8) (Fin 35) NaN = Inr NaN"
  by (simp add: calculateIntensity_def Let_def gt_def sub_def Math_max_def
      ATTENUATION_CONSTANTS_def)

theorem calculateIntensity_rejects_exactly_out_of_range_witness:
  "calculateIntensity (Fin 11) (Fin 35) (Fin 335) = Inl (InvalidMagnitude (Fin 11))
   \<and> calculateIntensity (Fin 8) (Fin 701) (Fin 335) = Inl (InvalidDepth (Fin 701))
   \<and> calculateIntensity (Fin 8) (Fin 35) (Fin (- 1)) = Inl (InvalidDistance (Fin (- 1)))
   \<and> (\<exists>v. calculateIntensity (Fin 8) (Fin 35) (Fin 335) = Inr v)"
  using calculateIntensity_rejects_exactly_out_of_range [of "Fin 11" "Fin 35" "Fin 335"]
    calculateIntensity_rejects_exactly_out_of_range [of "Fin 8" "Fin 701" "Fin 335"]
    calculateIntensity_rejects_exactly_out_of_range [of "Fin 8" "Fin 35" "Fin (- 1)"]
    calculateIntensity_rejects_exactly_out_of_range [of "Fin 8" "Fin 35" "Fin 335"]
  by (simp add: gt_def)

subsection \<open>Sign and monotonicity\<close>

text \<open>
  Claim C4. For magnitude in [0,10], depth in [0,700] and distance at least 0,
  \<open>calculateIntensity\<close> returns a value that is at least 0; with depth and distance
  fixed, a larger magnitude gives a value at least as large; with magnitude and depth
  fixed, a larger distance gives a value at most as large, wherever the hypocentral
  distance (at the smaller distance, hence at both) exceeds 1 km.
\<close>

theorem calculateIntensity_nonneg_monotone:
  "(le (Fin 0) magnitude \<and> le magnitude (Fin 10) \<and> le (Fin 0) depth \<and> le depth (Fin 700)
      \<and> le (Fin 0) distance
      \<longrightarrow> (\<exists>v. calculateIntensity magnitude depth distance = Inr v \<and> le (Fin 0) v))
   \<and> (le (Fin 0) magnitude \<and> le magnitude magnitude' \<and> le magnitude' (Fin 10)
      \<and> le (Fin 0) depth \<and> le depth (Fin 700) \<and> le (Fin 0) distance
      \<longrightarrow> (\<exists>v v'. calculateIntensity magnitude depth distance = Inr v
            \<and> calculateIntensity magnitude' depth distance = Inr v' \<and> le v v'))
   \<and> (le (Fin 0) magnitude \<and> le magnitude (Fin 10) \<and> le (Fin 0) depth \<and> le depth (Fin 700)
      \<and> le (Fin 0) distance \<and> le distance distance'
      \<and> gt (hypocentral depth distance) (Fin 1)
      \<longrightarrow> (\<exists>v v'. calculateIntensity magnitude depth distance = Inr v
            \<and> calculateIntensity magnitude depth distance' = Inr v' \<and> le v' v))"
proof (intro conjI impI)
  assume a: "le (Fin 0) magnitude \<and> le magnitude (Fin 10) \<and> le (Fin 0) depth
    \<and> le depth (Fin 700) \<and> le (Fin 0) distance"
  then obtain m where m: "magnitude = Fin m" "0 \<le> m" "m \<le> 10"
    by (auto elim: le_Fin_cases)
  from a obtain d where d: "depth = Fin d" "0 \<le> d" "d \<le> 700"
    by (auto elim: le_Fin_cases)
  from a have "le (Fin 0) distance" by simp
  then show "\<exists>v. calculateIntensity magnitude depth distance = Inr v \<and> le (Fin 0) v"
  proof (cases rule: le_Fin_lower_cases)
    case (1 x)
    then show ?thesis
      using m d by (simp add: calculateIntensity_Fin)
  next
    case 2
    then show ?thesis
      using m d by (simp add: calculateIntensity_PosInf)
  qed
next
  assume a: "le (Fin 0) magnitude \<and> le magnitude magnitude' \<and> le magnitude' (Fin 10)
    \<and> le (Fin 0) depth \<and> le depth (Fin 700) \<and> le (Fin 0) distance"
  then obtain m' where m': "magnitude' = Fin m'" "m' \<le> 10"
    by (cases magnitude'; cases magnitude) auto
  from a m' obtain m where m: "magnitude = Fin m" "0 \<le> m" "m \<le> m'"
    by (cases magnitude) auto
  from a obtain d where d: "depth = Fin d" "0 \<le> d" "d \<le> 700"
    by (auto elim: le_Fin_cases)
  from a have "le (Fin 0) distance" by simp
  then show "\<exists>v v'. calculateIntensity magnitude depth distance = Inr v
            \<and> calculateIntensity magnitude' depth distance = Inr v' \<and> le v v'"
  proof (cases rule: le_Fin_lower_cases)
    case (1 x)
    have "intensity_formula m (max (sqrt (x * x + d * d)) 1)
            \<le> intensity_formula m' (max (sqrt (x * x + d * d)) 1)"
      using m(3) by (rule intensity_formula_mono_magnitude)
    then show ?thesis
      using 1 m m' d by (simp add: calculateIntensity_Fin max.coboundedI1)
  next
    case 2
    then show ?thesis
      using m m' d by (simp add: calculateIntensity_PosInf)
  qed
next
  assume a: "le (Fin 0) magnitude \<and> le magnitude (Fin 10) \<and> le (Fin 0) depth
    \<and> le depth (Fin 700) \<and> le (Fin 0) distance \<and> le distance distance'
    \<and> gt (hypocentral depth distance) (Fin 1)"
  then obtain m where m: "magnitude = Fin m" "0 \<le> m" "m \<le> 10"
    by (auto elim: le_Fin_cases)
  from a obtain d where d: "depth = Fin d" "0 \<le> d" "d \<le> 700"
    by (auto elim: le_Fin_cases)
  from a have "le (Fin 0) distance" "le distance distance'" by simp_all
  then show "\<exists>v v'. calculateIntensity magnitude depth distance = Inr v
            \<and> calculateIntensity magnitude depth distance' = Inr v' \<and> le v' v"
  proof (cases rule: le_Fin_lower_cases)
    case (1 x)
    note x = this
    from \<open>le distance distance'\<close> x have "le (Fin x) distance'" by simp
    then show ?thesis
    proof (cases rule: le_Fin_lower_cases)
      case (1 x')
      have "x * x \<le> x' * x'"
        using x 1 by (simp add: mult_mono)
      then have "max (sqrt (x * x + d * d)) 1 \<le> max (sqrt (x' * x' + d * d)) 1"
        by (simp add: max.coboundedI1)
      then have "intensity_formula m (max (sqrt (x' * x' + d * d)) 1)
            \<le> intensity_formula m (max (sqrt (x * x + d * d)) 1)"
        by (intro intensity_formula_antimono_distance) simp_all
      then show ?thesis
        using 1 x m d by (simp add: calculateIntensity_Fin max.coboundedI1)
    next
      case 2
      then show ?thesis
        using x m d by (simp add: calculateIntensity_PosInf calculateIntensity_Fin)
    qed
  next
    case 2
    with \<open>le distance distance'\<close> have "distance' = PosInf"
      by (cases distance') auto
    with 2 show ?thesis
      using m d by (simp add: calculateIntensity_PosInf)
  qed
qed

theorem calculateIntensity_nonneg_monotone_witness:
  "(\<exists>v. calculateIntensity (Fin 5) (Fin 10) (Fin 100) = Inr v \<and> le (Fin 0) v)
   \<and> (\<exists>v v'. calculateIntensity (Fin 5) (Fin 10) (Fin 100) = Inr v
         \<and> calculateIntensity (Fin 6) (Fin 10) (Fin 100) = Inr v' \<and> le v v')
   \<and> (\<exists>v v'. calculateIntensity (Fin 5) (Fin 10) (Fin 100) = Inr v
         \<and> calculateIntensity (Fin 5) (Fin 10) (Fin 200) = Inr v' \<and> le v' v)"
  using calculateIntensity_nonneg_monotone
    [where magnitude = "Fin 5" and magnitude' = "Fin 6" and depth = "Fin 10"
       and distance = "Fin 100" and distance' = "Fin 200"]
  by (simp add: gt_def hypocentral_Fin)

subsection \<open>The bisection of \<open>estimateFeltRadius\<close>\<close>

text \<open>
  The loop function is total (its termination is proved with the definition: the number
  of iterations left, \<open>maxIterations - iterations\<close>, decreases). One iteration keeps the
  bounds finite and halves the bracketing interval, whichever half is chosen.
\<close>

lemma feltRadiusLoop_stop:
  assumes "hi - lo \<le> 1 \<or> maxIterations \<le> i"
  shows "feltRadiusLoop magnitude depth t (Fin lo) (Fin hi) i = Inr (Fin lo, Fin hi, i)"
  using assms
  by (subst feltRadiusLoop.simps) (auto simp: gt_def sub_def tolerance_def)

lemma feltRadiusLoop_step:
  assumes "0 \<le> m" "m \<le> 10" "0 \<le> d" "d \<le> 700"
    and "0 \<le> lo" "1 < hi - lo" "i < maxIterations"
  shows "feltRadiusLoop (Fin m) (Fin d) t (Fin lo) (Fin hi) i =
           feltRadiusLoop (Fin m) (Fin d) t (Fin ((lo + hi) / 2)) (Fin hi) (i + 1)
         \<or> feltRadiusLoop (Fin m) (Fin d) t (Fin lo) (Fin hi) i =
           feltRadiusLoop (Fin m) (Fin d) t (Fin lo) (Fin ((lo + hi) / 2)) (i + 1)"
proof -
  have mid: "0 \<le> (lo + hi) / 2"
    using assms by simp
  show ?thesis
    using assms
    by (subst (1 3) feltRadiusLoop.simps)
      (simp add: gt_def sub_def tolerance_def Let_def calculateIntensity_Fin [OF assms(1-4) mid])
qed

lemma width_above_tolerance:
  assumes "i < 13"
  shows "1 < 5000 / (2::real) ^ i"
proof -
  have "(2::real) ^ i \<le> 2 ^ 12"
    using assms by (intro power_increasing) simp_all
  then have "(2::real) ^ i < 5000"
    by simp
  then show ?thesis
    by simp
qed

lemma feltRadiusLoop_thirteen:
  assumes "0 \<le> m" "m \<le> 10" "0 \<le> d" "d \<le> 700"
  shows "n = 13 - i \<Longrightarrow> i \<le> 13 \<Longrightarrow> 0 \<le> lo \<Longrightarrow> hi \<le> 5000 \<Longrightarrow> hi - lo = 5000 / 2 ^ i \<Longrightarrow>
    \<exists>lo' hi'. feltRadiusLoop (Fin m) (Fin d) t (Fin lo) (Fin hi) i = Inr (Fin lo', Fin hi', 13)
       \<and> 0 \<le> lo' \<and> hi' \<le> 5000 \<and> hi' - lo' = 5000 / 2 ^ 13"
proof (induction n arbitrary: i lo hi)
  case 0
  then have i: "i = 13"
    by simp
  with 0 have "hi - lo \<le> 1"
    by simp
  then have "feltRadiusLoop (Fin m) (Fin d) t (Fin lo) (Fin hi) i = Inr (Fin lo, Fin hi, i)"
    by (intro feltRadiusLoop_stop disjI1)
  then show ?case
    using 0 i by simp
next
  case (Suc n)
  then have i: "i < 13"
    by simp
  let ?mid = "(lo + hi) / 2"
  have w: "1 < hi - lo"
    using Suc.prems width_above_tolerance [OF i] by simp
  have upper: "\<exists>lo' hi'. feltRadiusLoop (Fin m) (Fin d) t (Fin ?mid) (Fin hi) (i + 1)
        = Inr (Fin lo', Fin hi', 13) \<and> 0 \<le> lo' \<and> hi' \<le> 5000 \<and> hi' - lo' = 5000 / 2 ^ 13"
  proof (rule Suc.IH)
    show "hi - ?mid = 5000 / 2 ^ (i + 1)"
      using Suc.prems by (simp add: field_simps)
    show "0 \<le> ?mid"
      using Suc.prems(3) w by simp
  qed (use Suc.prems i in simp_all)
  have lower: "\<exists>lo' hi'. feltRadiusLoop (Fin m) (Fin d) t (Fin lo) (Fin ?mid) (i + 1)
        = Inr (Fin lo', Fin hi', 13) \<and> 0 \<le> lo' \<and> hi' \<le> 5000 \<and> hi' - lo' = 5000 / 2 ^ 13"
  proof (rule Suc.IH)
    show "?mid - lo = 5000 / 2 ^ (i + 1)"
      using Suc.prems by (simp add: field_simps)
    show "?mid \<le> 5000"
      using Suc.prems(4) w by simp
  qed (use Suc.prems i in simp_all)
  have "i < maxIterations"
    using i by (simp add: maxIterations_def)
  from feltRadiusLoop_step [OF assms \<open>0 \<le> lo\<close> w this, of t] upper lower
  show ?case
    by metis
qed

text \<open>
  Claim C9. For magnitude in [0,10] and depth in [0,700], and every target intensity,
  \<open>estimateFeltRadius\<close> returns (no call of \<open>calculateIntensity\<close> in the loop throws): the
  loop starts from the interval [0, 5000], performs at most 50 iterations, ends with an
  interval inside [0, 5000] that is at most 1 km wide, and the result is the midpoint of
  that interval. The loop stops as soon as the interval is within 1 km: it performs
  exactly 13 iterations, the interval being \<open>5000 / 2^12 > 1\<close> km wide before the last.
\<close>

theorem estimateFeltRadius_bounded_bisection:
  "le (Fin 0) magnitude \<and> le magnitude (Fin 10) \<and> le (Fin 0) depth \<and> le depth (Fin 700)
   \<longrightarrow> (\<exists>lo hi n.
         feltRadiusLoop magnitude depth targetIntensity (Fin 0) (Fin 5000) 0
           = Inr (Fin lo, Fin hi, n)
         \<and> n \<le> 50 \<and> n = 13
         \<and> 0 \<le> lo \<and> lo \<le> hi \<and> hi \<le> 5000
         \<and> hi - lo = 5000 / 2 ^ n \<and> hi - lo \<le> 1 \<and> 1 < 5000 / (2::real) ^ (n - 1)
         \<and> estimateFeltRadius magnitude depth targetIntensity = Inr (Fin ((lo + hi) / 2)))"
proof
  assume a: "le (Fin 0) magnitude \<and> le magnitude (Fin 10) \<and> le (Fin 0) depth
    \<and> le depth (Fin 700)"
  then obtain m where m: "magnitude = Fin m" "0 \<le> m" "m \<le> 10"
    by (auto elim: le_Fin_cases)
  from a obtain d where d: "depth = Fin d" "0 \<le> d" "d \<le> 700"
    by (auto elim: le_Fin_cases)
  have "\<exists>lo' hi'. feltRadiusLoop (Fin m) (Fin d) targetIntensity (Fin 0) (Fin 5000) 0
       = Inr (Fin lo', Fin hi', 13)
       \<and> 0 \<le> lo' \<and> hi' \<le> 5000 \<and> hi' - lo' = 5000 / 2 ^ 13"
    by (rule feltRadiusLoop_thirteen [OF m(2,3) d(2,3), of 13 0]) simp_all
  then obtain lo hi where
    loop: "feltRadiusLoop (Fin m) (Fin d) targetIntensity (Fin 0) (Fin 5000) 0
             = Inr (Fin lo, Fin hi, 13)"
    and b: "0 \<le> lo" "hi \<le> 5000" "hi - lo = 5000 / 2 ^ 13"
    by blast
  from b(3) have "lo \<le> hi" "hi - lo \<le> 1"
    by simp_all
  moreover have "estimateFeltRadius (Fin m) (Fin d) targetIntensity = Inr (Fin ((lo + hi) / 2))"
    by (simp add: estimateFeltRadius_def loop)
  ultimately show "\<exists>lo hi n.
         feltRadiusLoop magnitude depth targetIntensity (Fin 0) (Fin 5000) 0
           = Inr (Fin lo, Fin hi, n)
         \<and> n \<le> 50 \<and> n = 13
         \<and> 0 \<le> lo \<and> lo \<le> hi \<and> hi \<le> 5000
         \<and> hi - lo = 5000 / 2 ^ n \<and> hi - lo \<le> 1 \<and> 1 < 5000 / (2::real) ^ (n - 1)
         \<and> estimateFeltRadius magnitude depth targetIntensity = Inr (Fin ((lo + hi) / 2))"
    using loop b m(1) d(1) by simp
qed

theorem estimateFeltRadius_bounded_bisection_witness:
  "\<exists>lo hi n.
      feltRadiusLoop (Fin 8) (Fin 35) (Fin 3) (Fin 0) (Fin 5000) 0 = Inr (Fin lo, Fin hi, n)
      \<and> n \<le> 50 \<and> hi - lo \<le> 1
      \<and> estimateFeltRadius (Fin 8) (Fin 35) (Fin 3) = Inr (Fin ((lo + hi) / 2))"
  using estimateFeltRadius_bounded_bisection [of "Fin 8" "Fin 35" "Fin 3"]
  by fastforce

section \<open>Properties of the damage model\<close>

subsection \<open>The value of \<open>estimateDamage\<close>\<close>

lemma logistic_bounds: "0 < logistic v" "logistic v < 100"
proof -
  define E where "E = exp (- (15 / 10) * (v - 6))"
  have l: "logistic v = 100 / (1 + E)"
    by (simp only: logistic_def E_def)
  have E: "0 < E"
    by (simp only: E_def exp_gt_zero)
  from E have pos: "0 < 1 + E"
    by linarith
  from E have big: "100 < 100 * (1 + E)"
    by simp
  have "0 < (100::real)"
    by simp
  from divide_pos_pos [OF this pos] show "0 < logistic v"
    by (simp only: l)
  from big show "logistic v < 100"
    by (simp only: l pos_divide_less_eq [OF pos])
qed

lemma logistic_mono:
  assumes "v \<le> w"
  shows "logistic v \<le> logistic w"
proof -
  have "exp (- (15 / 10) * (w - 6)) \<le> exp (- (15 / 10) * (v - 6))"
    using assms by simp
  then have "1 + exp (- (15 / 10) * (w - 6)) \<le> 1 + exp (- (15 / 10) * (v - 6))"
    by simp
  moreover have "0 < 1 + exp (- (15 / 10) * (w - 6))"
    by (simp add: add_pos_pos)
  ultimately show ?thesis
    unfolding logistic_def by (intro divide_left_mono) (simp_all add: add_pos_pos)
qed

lemma estimateDamage_Fin:
  assumes "0 \<le> v"
  shows "estimateDamage (Fin v) = Fin (logistic v)"
proof -
  have "divide (Fin 100)
          (add (Fin 1)
             (Math_exp (mul (neg (param_k DAMAGE_PARAMETERS))
                            (sub (Fin v) (param_threshold DAMAGE_PARAMETERS)))))
        = Fin (logistic v)"
    using exp_gt_zero [of "- (15 / 10) * (v - 6)"]
    by (simp add: DAMAGE_PARAMETERS_def sub_def logistic_def add_nonneg_eq_0_iff
        del: exp_gt_zero)
  then show ?thesis
    using assms logistic_bounds [of v]
    by (simp add: estimateDamage_def Let_def Math_max_def Math_min_def not_less)
qed

lemma estimateDamage_PosInf: "estimateDamage PosInf = Fin 100"
  by (simp add: estimateDamage_def Let_def DAMAGE_PARAMETERS_def sub_def signed_inf_def
      Math_max_def Math_min_def)

lemma estimateDamage_negative: "lt x (Fin 0) \<or> isNaN x \<Longrightarrow> estimateDamage x = Fin 0"
  by (simp add: estimateDamage_def)

lemma estimateDamage_cases:
  obtains "lt x (Fin 0) \<or> isNaN x" "estimateDamage x = Fin 0"
  | v where "x = Fin v" "0 \<le> v" "estimateDamage x = Fin (logistic v)"
  | "x = PosInf" "estimateDamage x = Fin 100"
proof (cases x)
  case (Fin v)
  then show ?thesis
    using that estimateDamage_Fin [of v] estimateDamage_negative [of x]
    by (cases "v < 0") (auto simp: not_less)
qed (use that estimateDamage_PosInf estimateDamage_negative in auto)

lemma estimateDamage_range:
  "le (Fin 0) (estimateDamage x)" "le (estimateDamage x) (Fin 100)"
  using logistic_bounds
  by (cases x rule: estimateDamage_cases; simp add: less_imp_le)+

subsection \<open>Monotonicity and range\<close>

text \<open>
  Claim C5. \<open>estimateDamage\<close> is monotonically non-decreasing: whenever \<open>x \<le> y\<close>
  (the comparison of the language, so neither is \<open>NaN\<close>), \<open>estimateDamage x \<le>
  estimateDamage y\<close>. For every argument, \<open>NaN\<close> and the infinities included, the
  result lies in [0,100]. \<open>estimateDamage (-5)\<close> is 0.
\<close>

theorem estimateDamage_monotone_bounded:
  "(le x y \<longrightarrow> le (estimateDamage x) (estimateDamage y))
   \<and> le (Fin 0) (estimateDamage x) \<and> le (estimateDamage x) (Fin 100)
   \<and> estimateDamage (Fin (- 5)) = Fin 0"
proof (intro conjI impI)
  show "estimateDamage (Fin (- 5)) = Fin 0"
    by (simp add: estimateDamage_def)
  show "le (Fin 0) (estimateDamage x)" "le (estimateDamage x) (Fin 100)"
    by (rule estimateDamage_range)+
  assume xy: "le x y"
  show "le (estimateDamage x) (estimateDamage y)"
  proof (cases x rule: estimateDamage_cases)
    case 1
    then show ?thesis
      using estimateDamage_range(1) [of y] by simp
  next
    case (2 v)
    from xy 2 consider w where "y = Fin w" "v \<le> w" | "y = PosInf"
      by (cases y) auto
    then show ?thesis
    proof cases
      case 1
      then show ?thesis
        using 2 estimateDamage_Fin [of w] logistic_mono [of v w] by simp
    next
      case 2
      then show ?thesis
        using \<open>estimateDamage x = Fin (logistic v)\<close> logistic_bounds [of v]
        by (simp add: estimateDamage_PosInf less_imp_le)
    qed
  next
    case 3
    with xy have "y = PosInf"
      by (cases y) auto
    with 3 show ?thesis by simp
  qed
qed

theorem estimateDamage_monotone_bounded_witness:
  "le (estimateDamage (Fin 1)) (estimateDamage (Fin 2))
   \<and> le (Fin 0) (estimateDamage (Fin 1)) \<and> le (estimateDamage (Fin 1)) (Fin 100)"
  using estimateDamage_monotone_bounded [of "Fin 1" "Fin 2"]
  by simp

subsection \<open>The damage categories\<close>

text \<open>
  Claim C10. \<open>getDamageCategory\<close> returns a category for every argument; an argument
  that is not below 70 by the comparison of the language (so every percentage of 70 or
  more, those above 100 included, and \<open>NaN\<close>) gets the category "Very Heavy" with
  severity 5, and an argument below 70 gets a lower severity.
\<close>

theorem getDamageCategory_top_band:
  "(\<not> lt damagePercent (Fin 70) \<longrightarrow>
      category (getDamageCategory damagePercent) = ''Very Heavy''
      \<and> severity (getDamageCategory damagePercent) = 5)
   \<and> (gt damagePercent (Fin 100) \<longrightarrow>
      category (getDamageCategory damagePercent) = ''Very Heavy''
      \<and> severity (getDamageCategory damagePercent) = 5)
   \<and> category (getDamageCategory NaN) = ''Very Heavy''
   \<and> severity (getDamageCategory NaN) = 5
   \<and> (lt damagePercent (Fin 70) \<longrightarrow> severity (getDamageCategory damagePercent) < 5)"
  by (cases damagePercent) (auto simp: getDamageCategory_def gt_def)

theorem getDamageCategory_top_band_witness:
  "category (getDamageCategory (Fin 150)) = ''Very Heavy''
   \<and> severity (getDamageCategory (Fin 150)) = 5
   \<and> severity (getDamageCategory (Fin 10)) < 5"
  using getDamageCategory_top_band [of "Fin 150"] getDamageCategory_top_band [of "Fin 10"]
  by (simp add: gt_def)

section \<open>Properties of the intensity scale\<close>

subsection \<open>The table and the lookup\<close>

lemma MMI_bounds:
  "minIntensity MMI_I = Fin 0" "maxIntensity MMI_I = Fin (15 / 10)"
  "minIntensity MMI_II = Fin (15 / 10)" "maxIntensity MMI_II = Fin (25 / 10)"
  "minIntensity MMI_III = Fin (25 / 10)" "maxIntensity MMI_III = Fin (35 / 10)"
  "minIntensity MMI_IV = Fin (35 / 10)" "maxIntensity MMI_IV = Fin (45 / 10)"
  "minIntensity MMI_V = Fin (45 / 10)" "maxIntensity MMI_V = Fin (55 / 10)"
  "minIntensity MMI_VI = Fin (55 / 10)" "maxIntensity MMI_VI = Fin (65 / 10)"
  "minIntensity MMI_VII = Fin (65 / 10)" "maxIntensity MMI_VII = Fin (75 / 10)"
  "minIntensity MMI_VIII = Fin (75 / 10)" "maxIntensity MMI_VIII = Fin (85 / 10)"
  "minIntensity MMI_IX = Fin (85 / 10)" "maxIntensity MMI_IX = Fin (95 / 10)"
  "minIntensity MMI_X = Fin (95 / 10)" "maxIntensity MMI_X = Fin (105 / 10)"
  "minIntensity MMI_XI = Fin (105 / 10)" "maxIntensity MMI_XI = Fin (115 / 10)"
  "minIntensity MMI_XII = Fin (115 / 10)" "maxIntensity MMI_XII = PosInf"
  by (simp_all add: MMI_I_def MMI_II_def MMI_III_def MMI_IV_def MMI_V_def MMI_VI_def
      MMI_VII_def MMI_VIII_def MMI_IX_def MMI_X_def MMI_XI_def MMI_XII_def)

lemma MMI_numericLevels:
  "numericLevel MMI_I = 1" "numericLevel MMI_II = 2" "numericLevel MMI_III = 3"
  "numericLevel MMI_IV = 4" "numericLevel MMI_V = 5" "numericLevel MMI_VI = 6"
  "numericLevel MMI_VII = 7" "numericLevel MMI_VIII = 8" "numericLevel MMI_IX = 9"
  "numericLevel MMI_X = 10" "numericLevel MMI_XI = 11" "numericLevel MMI_XII = 12"
  by (simp_all add: MMI_I_def MMI_II_def MMI_III_def MMI_IV_def MMI_V_def MMI_VI_def
      MMI_VII_def MMI_VIII_def MMI_IX_def MMI_X_def MMI_XI_def MMI_XII_def)

lemma set_MMI_SCALE:
  "b \<in> set MMI_SCALE \<longleftrightarrow>
     b = MMI_I \<or> b = MMI_II \<or> b = MMI_III \<or> b = MMI_IV \<or> b = MMI_V \<or> b = MMI_VI
     \<or> b = MMI_VII \<or> b = MMI_VIII \<or> b = MMI_IX \<or> b = MMI_X \<or> b = MMI_XI \<or> b = MMI_XII"
  by (simp add: MMI_SCALE_def)

lemma truncate_with_intensityValue [simp]:
  "mmi_level.truncate (with_intensityValue l v) = l"
  by (simp add: with_intensityValue_def mmi_level.truncate_def mmi_level.extend_def)

lemma result_intensityValue_with [simp]:
  "result_intensityValue (with_intensityValue l v) = v"
  by (simp add: with_intensityValue_def mmi_level.extend_def mmi_result.fields_def)

lemma numericLevel_with [simp]:
  "numericLevel (with_intensityValue l v) = numericLevel l"
  by (simp add: with_intensityValue_def mmi_level.extend_def)

lemma level_with [simp]:
  "level (with_intensityValue l v) = level l"
  by (simp add: with_intensityValue_def mmi_level.extend_def)

lemma findLevel_Some:
  "findLevel ls x = Some l \<Longrightarrow> l \<in> set ls \<and> ge x (minIntensity l) \<and> lt x (maxIntensity l)"
  by (induction ls) (auto split: if_splits)

lemma findLevel_Fin:
  "findLevel MMI_SCALE (Fin v) =
     (if 0 \<le> v \<and> v < 15 / 10 then Some MMI_I
      else if 15 / 10 \<le> v \<and> v < 25 / 10 then Some MMI_II
      else if 25 / 10 \<le> v \<and> v < 35 / 10 then Some MMI_III
      else if 35 / 10 \<le> v \<and> v < 45 / 10 then Some MMI_IV
      else if 45 / 10 \<le> v \<and> v < 55 / 10 then Some MMI_V
      else if 55 / 10 \<le> v \<and> v < 65 / 10 then Some MMI_VI
      else if 65 / 10 \<le> v \<and> v < 75 / 10 then Some MMI_VII
      else if 75 / 10 \<le> v \<and> v < 85 / 10 then Some MMI_VIII
      else if 85 / 10 \<le> v \<and> v < 95 / 10 then Some MMI_IX
      else if 95 / 10 \<le> v \<and> v < 105 / 10 then Some MMI_X
      else if 105 / 10 \<le> v \<and> v < 115 / 10 then Some MMI_XI
      else if 115 / 10 \<le> v then Some MMI_XII
      else None)"
  by (simp add: MMI_SCALE_def MMI_bounds ge_def)

lemma findLevel_PosInf: "findLevel MMI_SCALE PosInf = None"
  by (simp add: MMI_SCALE_def MMI_bounds ge_def)

lemma MMI_SCALE_first_last:
  "MMI_SCALE ! 0 = MMI_I" "MMI_SCALE ! (length MMI_SCALE - 1) = MMI_XII"
  by (simp_all add: MMI_SCALE_def)

lemma inBand_Fin_findLevel:
  assumes "b \<in> set MMI_SCALE" "inBand (Fin v) b"
  shows "findLevel MMI_SCALE (Fin v) = Some b"
  using assms unfolding set_MMI_SCALE
  by (elim disjE; simp add: inBand_def MMI_bounds findLevel_Fin)

lemma inBand_PosInf:
  assumes "b \<in> set MMI_SCALE" "inBand PosInf b"
  shows "b = MMI_XII"
  using assms unfolding set_MMI_SCALE
  by (elim disjE; simp add: inBand_def MMI_bounds)

lemma inBand_lower:
  assumes "b \<in> set MMI_SCALE" "inBand x b"
  shows "le (Fin 0) x"
  using assms unfolding set_MMI_SCALE
  by (elim disjE; cases x; simp add: inBand_def MMI_bounds)

lemma inBand_unique:
  assumes "b \<in> set MMI_SCALE" "c \<in> set MMI_SCALE" "inBand x b" "inBand x c"
  shows "b = c"
  using inBand_lower [OF assms(1,3)]
proof (cases rule: le_Fin_lower_cases)
  case (1 v)
  from assms(3,4) have ib: "inBand (Fin v) b" "inBand (Fin v) c"
    by (simp_all add: 1)
  have "findLevel MMI_SCALE (Fin v) = Some b"
    by (rule inBand_Fin_findLevel [OF assms(1) ib(1)])
  moreover have "findLevel MMI_SCALE (Fin v) = Some c"
    by (rule inBand_Fin_findLevel [OF assms(2) ib(2)])
  ultimately show ?thesis
    by simp
next
  case 2
  from assms(3,4) have ib: "inBand PosInf b" "inBand PosInf c"
    by (simp_all add: 2)
  have "b = MMI_XII"
    by (rule inBand_PosInf [OF assms(1) ib(1)])
  moreover have "c = MMI_XII"
    by (rule inBand_PosInf [OF assms(2) ib(2)])
  ultimately show ?thesis
    by simp
qed

lemma findLevel_inBand:
  assumes "findLevel MMI_SCALE x = Some l"
  shows "l \<in> set MMI_SCALE \<and> inBand x l"
  using findLevel_Some [OF assms] by (simp add: inBand_def ge_def)

lemma getMMI_Fin:
  assumes "0 \<le> v"
  shows "\<exists>l. findLevel MMI_SCALE (Fin v) = Some l
           \<and> getMMI (Fin v) = with_intensityValue l (Some (Fin v))"
proof -
  have "findLevel MMI_SCALE (Fin v) \<noteq> None"
    using assms unfolding findLevel_Fin by (simp add: not_less)
  then obtain l where "findLevel MMI_SCALE (Fin v) = Some l"
    by blast
  then show ?thesis
    using assms by (simp add: getMMI_def not_less)
qed

lemma getMMI_PosInf: "getMMI PosInf = with_intensityValue MMI_XII (Some PosInf)"
  unfolding getMMI_def findLevel_PosInf MMI_SCALE_first_last by simp

lemma getMMI_inBand:
  assumes "ge x (Fin 0)"
  shows "mmi_level.truncate (getMMI x) \<in> set MMI_SCALE
         \<and> inBand x (mmi_level.truncate (getMMI x))
         \<and> result_intensityValue (getMMI x) = Some x"
proof -
  from assms have "le (Fin 0) x"
    by (simp add: ge_def)
  then show ?thesis
  proof (cases rule: le_Fin_lower_cases)
    case (1 v)
    with getMMI_Fin [of v] obtain l where
      "findLevel MMI_SCALE (Fin v) = Some l" "getMMI (Fin v) = with_intensityValue l (Some (Fin v))"
      by blast
    with findLevel_inBand [of "Fin v" l] 1 show ?thesis
      by simp
  next
    case 2
    then show ?thesis
      by (simp add: getMMI_PosInf set_MMI_SCALE inBand_def MMI_bounds)
  qed
qed

lemma getMMI_minIntensity:
  assumes "b \<in> set MMI_SCALE"
  shows "mmi_level.truncate (getMMI (minIntensity b)) = b"
  using assms unfolding set_MMI_SCALE
  by (elim disjE; simp add: getMMI_def MMI_bounds findLevel_Fin)

lemma getMMI_negative_or_NaN:
  assumes "lt x (Fin 0) \<or> isNaN x"
  shows "getMMI x = with_intensityValue MMI_I None"
  using assms by (simp add: getMMI_def MMI_SCALE_first_last)

subsection \<open>The bands partition the non-negative intensities\<close>

text \<open>
  Claim C6. For every intensity \<open>x \<ge> 0\<close> (\<open>Infinity\<close> included) exactly one of the
  twelve bands of \<open>MMI_SCALE\<close> contains \<open>x\<close>, and \<open>getMMI x\<close> returns that band (with
  the field \<open>intensityValue\<close> set to \<open>x\<close>). An intensity equal to the \<open>minIntensity\<close>
  of a band is classified into that band. An intensity below 0 or \<open>NaN\<close> is classified
  as MMI I (the table entry itself, without \<open>intensityValue\<close>).
\<close>

theorem getMMI_bands_partition:
  "(ge x (Fin 0) \<longrightarrow>
      (\<exists>!b. b \<in> set MMI_SCALE \<and> inBand x b)
      \<and> mmi_level.truncate (getMMI x) \<in> set MMI_SCALE
      \<and> inBand x (mmi_level.truncate (getMMI x))
      \<and> result_intensityValue (getMMI x) = Some x)
   \<and> (\<forall>b \<in> set MMI_SCALE. mmi_level.truncate (getMMI (minIntensity b)) = b)
   \<and> (lt x (Fin 0) \<or> isNaN x \<longrightarrow> getMMI x = with_intensityValue MMI_I None)
   \<and> length MMI_SCALE = 12 \<and> map numericLevel MMI_SCALE = [1, 2, 3, 4, 5, 6, 7, 8, 9, 10, 11, 12]"
proof (intro conjI impI ballI)
  assume x: "ge x (Fin 0)"
  from getMMI_inBand [OF x]
  show "mmi_level.truncate (getMMI x) \<in> set MMI_SCALE"
    "inBand x (mmi_level.truncate (getMMI x))"
    "result_intensityValue (getMMI x) = Some x"
    by simp_all
  then show "\<exists>!b. b \<in> set MMI_SCALE \<and> inBand x b"
    by (intro ex1I [of _ "mmi_level.truncate (getMMI x)"]) (auto intro: inBand_unique)
next
  fix b assume "b \<in> set MMI_SCALE"
  then show "mmi_level.truncate (getMMI (minIntensity b)) = b"
    by (rule getMMI_minIntensity)
next
  assume "lt x (Fin 0) \<or> isNaN x"
  then show "getMMI x = with_intensityValue MMI_I None"
    by (rule getMMI_negative_or_NaN)
next
  show "length MMI_SCALE = 12"
    by (simp add: MMI_SCALE_def)
  show "map numericLevel MMI_SCALE = [1, 2, 3, 4, 5, 6, 7, 8, 9, 10, 11, 12]"
    by (simp add: MMI_SCALE_def MMI_numericLevels)
qed

theorem getMMI_bands_partition_witness:
  "mmi_level.truncate (getMMI (Fin (72 / 10))) \<in> set MMI_SCALE
   \<and> inBand (Fin (72 / 10)) (mmi_level.truncate (getMMI (Fin (72 / 10))))
   \<and> mmi_level.truncate (getMMI (minIntensity MMI_VII)) = MMI_VII
   \<and> getMMI (Fin (- 1)) = with_intensityValue MMI_I None"
  using getMMI_bands_partition [of "Fin (72 / 10)"] getMMI_bands_partition [of "Fin (- 1)"]
  by (simp add: ge_def MMI_SCALE_def)

section \<open>The documented examples\<close>

subsection \<open>The calibration scenario of the attenuation model\<close>

text \<open>
  Bounds on a decimal logarithm from a comparison of integer powers:
  \<open>10^p < x^q\<close> gives \<open>p/q < log10 x\<close>, and conversely.
\<close>

lemma log10_greater:
  fixes x :: real
  assumes "0 < x" "0 < q" "10 ^ p < x ^ q"
  shows "real p / real q < log 10 x"
proof -
  have "log 10 (10 ^ p) < log 10 (x ^ q)"
    using assms by (subst log_less_cancel_iff) simp_all
  then have "real p < real q * log 10 x"
    using assms by (simp add: log_nat_power)
  then show ?thesis
    using assms by (simp add: pos_divide_less_eq mult.commute)
qed

lemma log10_less:
  fixes x :: real
  assumes "0 < x" "0 < q" "x ^ q < 10 ^ p"
  shows "log 10 x < real p / real q"
proof -
  have "log 10 (x ^ q) < log 10 (10 ^ p)"
    using assms by (subst log_less_cancel_iff) simp_all
  then have "real q * log 10 x < real p"
    using assms by (simp add: log_nat_power)
  then show ?thesis
    using assms by (simp add: pos_less_divide_eq mult.commute)
qed

lemma sqrt_113450_bounds: "336 < sqrt 113450" "sqrt 113450 < 337"
proof -
  have "sqrt (336\<^sup>2) < sqrt 113450"
    by (subst real_sqrt_less_iff) simp
  then show "336 < sqrt 113450"
    by simp
  have "sqrt 113450 < sqrt (337\<^sup>2)"
    by (subst real_sqrt_less_iff) simp
  then show "sqrt 113450 < 337"
    by simp
qed

lemma log10_sqrt_113450_bounds:
  "252 / 100 < log 10 (sqrt 113450)" "log 10 (sqrt 113450) < 253 / 100"
proof -
  have "real 63 / real 25 < log 10 336"
    by (rule log10_greater) simp_all
  also have "log 10 336 < log 10 (sqrt 113450)"
    using sqrt_113450_bounds(1) by (subst log_less_cancel_iff) simp_all
  finally show "252 / 100 < log 10 (sqrt 113450)"
    by simp
  have "log 10 (sqrt 113450) < log 10 337"
    using sqrt_113450_bounds by (subst log_less_cancel_iff) simp_all
  also have "log 10 337 < real 253 / real 100"
    by (rule log10_less) simp_all
  finally show "log 10 (sqrt 113450) < 253 / 100"
    by simp
qed

lemma maule_formula_bounds:
  "28 / 10 < intensity_formula (88 / 10) (sqrt 113450)"
  "intensity_formula (88 / 10) (sqrt 113450) < 29 / 10"
  using sqrt_113450_bounds log10_sqrt_113450_bounds
  unfolding intensity_formula_def by linarith+

text \<open>
  Claim C1, evaluated on the code. The documentation of \<open>calculateIntensity\<close> and the
  reference case of \<open>validateModel\<close> give about 7.2 (MMI VII-VIII) for magnitude 8.8,
  depth 35 and distance 335. With the constants of \<open>ATTENUATION_CONSTANTS\<close> the function
  returns a value between 2.8 and 2.9, which is not within 0.5 of 7.2, and \<open>getMMI\<close>
  classifies that value as MMI III.
\<close>

theorem calculateIntensity_calibration_value:
  "\<exists>v. calculateIntensity (Fin (88 / 10)) (Fin 35) (Fin 335) = Inr (Fin v)
       \<and> 28 / 10 < v \<and> v < 29 / 10 \<and> \<not> \<bar>v - 72 / 10\<bar> \<le> 5 / 10
       \<and> getMMILevel (Fin v) = ''III'' \<and> getMMINumeric (Fin v) = 3"
proof -
  define v where "v = intensity_formula (88 / 10) (sqrt 113450)"
  have b: "28 / 10 < v" "v < 29 / 10"
    unfolding v_def by (rule maule_formula_bounds)+
  have r: "max (sqrt 113450) 1 = sqrt 113450"
    using sqrt_113450_bounds(1) by simp
  have "calculateIntensity (Fin (88 / 10)) (Fin 35) (Fin 335) =
          Inr (Fin (max (intensity_formula (88 / 10) (max (sqrt (335 * 335 + 35 * 35)) 1)) 0))"
    by (rule calculateIntensity_Fin) simp_all
  also have "(335 * 335 + 35 * 35 :: real) = 113450"
    by simp
  finally have c: "calculateIntensity (Fin (88 / 10)) (Fin 35) (Fin 335) = Inr (Fin v)"
    using b(1) unfolding r v_def by (simp add: max_def)
  have f: "findLevel MMI_SCALE (Fin v) = Some MMI_III"
    using b unfolding findLevel_Fin by simp
  have g: "getMMI (Fin v) = with_intensityValue MMI_III (Some (Fin v))"
    using b(1) by (simp add: getMMI_def f)
  have "getMMILevel (Fin v) = ''III''" "getMMINumeric (Fin v) = 3"
    unfolding getMMILevel_def getMMINumeric_def g by (simp_all add: MMI_III_def)
  moreover have "\<not> \<bar>v - 72 / 10\<bar> \<le> 5 / 10"
    using b by simp
  ultimately show ?thesis
    using b c by blast
qed

subsection \<open>The examples of the damage curve\<close>

lemma exp_minus_9_5_bounds: "7 / 43 < exp (- (9 / 5) :: real)" "exp (- (9 / 5) :: real) < 3 / 17"
proof -
  have "(7 / 43 :: real) < (1 - 9 / 5 / of_nat 128) ^ 128"
    by (simp add: power_divide)
  also have "\<dots> \<le> exp (- (9 / 5))"
    by (rule exp_ge_one_minus_x_over_n_power_n) simp_all
  finally show "7 / 43 < exp (- (9 / 5) :: real)" .
  have "(17 / 3 :: real) < (1 + 9 / 5 / of_nat 32) ^ 32"
    by (simp add: power_divide)
  also have "\<dots> \<le> exp (9 / 5)"
    by (rule exp_ge_one_plus_x_over_n_power_n) simp_all
  finally have "inverse (exp (9 / 5 :: real)) < inverse (17 / 3)"
    by (subst inverse_less_iff_less) simp_all
  then show "exp (- (9 / 5) :: real) < 3 / 17"
    by (simp add: exp_minus)
qed

lemma exp_3_2_bounds: "81 / 19 < exp (3 / 2 :: real)" "exp (3 / 2 :: real) < 41 / 9"
proof -
  have "(81 / 19 :: real) < (1 + 3 / 2 / of_nat 32) ^ 32"
    by (simp add: power_divide)
  also have "\<dots> \<le> exp (3 / 2)"
    by (rule exp_ge_one_plus_x_over_n_power_n) simp_all
  finally show "81 / 19 < exp (3 / 2 :: real)" .
  have "(9 / 41 :: real) < (1 - 3 / 2 / of_nat 128) ^ 128"
    by (simp add: power_divide)
  also have "\<dots> \<le> exp (- (3 / 2))"
    by (rule exp_ge_one_minus_x_over_n_power_n) simp_all
  finally have "inverse (exp (- (3 / 2) :: real)) < inverse (9 / 41)"
    by (subst inverse_less_iff_less) simp_all
  then show "exp (3 / 2 :: real) < 41 / 9"
    by (simp add: exp_minus)
qed

lemma logistic_between:
  fixes E lo hi :: real
  assumes "0 < E" "lo * (1 + E) < 100" "100 < hi * (1 + E)"
  shows "lo < 100 / (1 + E)" "100 / (1 + E) < hi"
proof -
  have pos: "0 < 1 + E"
    using assms(1) by linarith
  show "lo < 100 / (1 + E)"
    using assms(2) by (simp only: pos_less_divide_eq [OF pos])
  show "100 / (1 + E) < hi"
    using assms(3) by (simp only: pos_divide_less_eq [OF pos])
qed

lemma logistic_7_2_bounds: "85 < logistic (72 / 10)" "logistic (72 / 10) < 86"
proof -
  have l: "logistic (72 / 10) = 100 / (1 + exp (- (9 / 5)))"
    by (simp add: logistic_def)
  have "85 * (1 + exp (- (9 / 5) :: real)) < 100" "100 < 86 * (1 + exp (- (9 / 5) :: real))"
    using exp_minus_9_5_bounds by simp_all
  from logistic_between [OF exp_gt_zero this] show "85 < logistic (72 / 10)" "logistic (72 / 10) < 86"
    unfolding l by simp_all
qed

lemma logistic_5_bounds: "18 < logistic 5" "logistic 5 < 19"
proof -
  have l: "logistic 5 = 100 / (1 + exp (3 / 2))"
    by (simp add: logistic_def)
  have "18 * (1 + exp (3 / 2 :: real)) < 100" "100 < 19 * (1 + exp (3 / 2 :: real))"
    using exp_3_2_bounds by simp_all
  from logistic_between [OF exp_gt_zero this] show "18 < logistic 5" "logistic 5 < 19"
    unfolding l by simp_all
qed

text \<open>
  Claim C2, evaluated on the code. With \<open>k = 1.5\<close> and \<open>threshold = 6.0\<close>,
  \<open>estimateDamage 7.2\<close> is between 85 and 86, so it is not within 3 of the documented
  76; \<open>estimateDamage 5.0\<close> is between 18 and 19, within 3 of the documented 18.
\<close>

theorem estimateDamage_documented_examples:
  "\<exists>v w. estimateDamage (Fin (72 / 10)) = Fin v \<and> 85 < v \<and> v < 86 \<and> \<not> \<bar>v - 76\<bar> \<le> 3
         \<and> estimateDamage (Fin 5) = Fin w \<and> 18 < w \<and> w < 19 \<and> \<bar>w - 18\<bar> \<le> 3"
proof -
  have "estimateDamage (Fin (72 / 10)) = Fin (logistic (72 / 10))"
    by (rule estimateDamage_Fin) simp
  moreover have "estimateDamage (Fin 5) = Fin (logistic 5)"
    by (rule estimateDamage_Fin) simp
  moreover have "\<not> \<bar>logistic (72 / 10) - 76\<bar> \<le> 3"
    using logistic_7_2_bounds by simp
  moreover have "\<bar>logistic 5 - 18\<bar> \<le> 3"
    using logistic_5_bounds by simp
  ultimately show ?thesis
    using logistic_7_2_bounds logistic_5_bounds by blast
qed

section \<open>Properties of the population estimates\<close>

subsection \<open>Rounding\<close>

lemma round_le_integer:
  fixes y :: real
  assumes "y \<le> of_int n"
  shows "\<lfloor>y + 1 / 2\<rfloor> \<le> n"
proof -
  have "y + 1 / 2 < of_int (n + 1)"
    using assms by simp
  then have "\<lfloor>y + 1 / 2\<rfloor> < n + 1"
    by (simp only: floor_less_iff)
  then show ?thesis
    by simp
qed

lemma round_nonneg:
  fixes y :: real
  assumes "0 \<le> y"
  shows "0 \<le> \<lfloor>y + 1 / 2\<rfloor>"
  using assms by simp

subsection \<open>Population impact\<close>



lemma below_bound_not_PosInf:
  assumes "le x (Fin b)"
  shows "lt x PosInf"
  using assms by (cases x) simp_all







subsection \<open>Casualty risk\<close>

lemma Math_pow_square:
  assumes "0 \<le> x"
  shows "Math_pow (Fin x) (Fin 2) = Fin (x\<^sup>2)"
  using assms by (cases "x = 0") simp_all

lemma estimateCasualtyRisk_zero:
  assumes "lt damagePercent (Fin 60)"
  shows "low (estimateCasualtyRisk totalPopulation damagePercent) = Fin 0"
    and "medium (estimateCasualtyRisk totalPopulation damagePercent) = Fin 0"
    and "high (estimateCasualtyRisk totalPopulation damagePercent) = Fin 0"
  using assms by (simp_all add: estimateCasualtyRisk_def)

lemma estimateCasualtyRisk_Fin:
  assumes "60 \<le> p"
  shows "medium (estimateCasualtyRisk (Fin t) (Fin p)) =
           Fin (of_int \<lfloor>t * (((p - 60) / 40)\<^sup>2 * (1 / 100)) + 1 / 2\<rfloor>)"
    and "low (estimateCasualtyRisk (Fin t) (Fin p)) =
           Fin (of_int \<lfloor>real_of_int \<lfloor>t * (((p - 60) / 40)\<^sup>2 * (1 / 100)) + 1 / 2\<rfloor> * (5 / 10) + 1 / 2\<rfloor>)"
    and "high (estimateCasualtyRisk (Fin t) (Fin p)) =
           Fin (of_int \<lfloor>real_of_int \<lfloor>t * (((p - 60) / 40)\<^sup>2 * (1 / 100)) + 1 / 2\<rfloor> * 2 + 1 / 2\<rfloor>)"
proof -
  have x: "0 \<le> (p - 60) / 40"
    using assms by simp
  have pw: "Math_pow (divide (sub (Fin p) (Fin 60)) (Fin 40)) (Fin 2) = Fin (((p - 60) / 40)\<^sup>2)"
    using Math_pow_square [OF x] by (simp add: sub_def)
  show "medium (estimateCasualtyRisk (Fin t) (Fin p)) =
           Fin (of_int \<lfloor>t * (((p - 60) / 40)\<^sup>2 * (1 / 100)) + 1 / 2\<rfloor>)"
    and "low (estimateCasualtyRisk (Fin t) (Fin p)) =
           Fin (of_int \<lfloor>real_of_int \<lfloor>t * (((p - 60) / 40)\<^sup>2 * (1 / 100)) + 1 / 2\<rfloor> * (5 / 10) + 1 / 2\<rfloor>)"
    and "high (estimateCasualtyRisk (Fin t) (Fin p)) =
           Fin (of_int \<lfloor>real_of_int \<lfloor>t * (((p - 60) / 40)\<^sup>2 * (1 / 100)) + 1 / 2\<rfloor> * 2 + 1 / 2\<rfloor>)"
    using assms unfolding estimateCasualtyRisk_def Let_def pw
    by (simp_all add: not_less)
qed

lemma estimateCasualtyRisk_ordered:
  assumes "0 \<le> t"
  shows "le (low (estimateCasualtyRisk (Fin t) (Fin p))) (medium (estimateCasualtyRisk (Fin t) (Fin p)))
       \<and> le (medium (estimateCasualtyRisk (Fin t) (Fin p))) (high (estimateCasualtyRisk (Fin t) (Fin p)))"
proof (cases "p < 60")
  case True
  then have "lt (Fin p) (Fin 60)"
    by simp
  then show ?thesis
    by (simp only: estimateCasualtyRisk_zero) simp
next
  case False
  then have p: "60 \<le> p"
    by simp
  define e where "e = \<lfloor>t * (((p - 60) / 40)\<^sup>2 * (1 / 100)) + 1 / 2\<rfloor>"
  have "0 \<le> t * (((p - 60) / 40)\<^sup>2 * (1 / 100))"
    using assms by simp
  then have e0: "0 \<le> e"
    unfolding e_def by (rule round_nonneg)
  have "(of_int e :: real) * (5 / 10) \<le> of_int e"
    using e0 by simp
  then have lo: "\<lfloor>(of_int e :: real) * (5 / 10) + 1 / 2\<rfloor> \<le> e"
    by (rule round_le_integer)
  have "(of_int e :: real) * 2 + 1 / 2 = of_int (2 * e) + 1 / 2"
    by simp
  then have "\<lfloor>(of_int e :: real) * 2 + 1 / 2\<rfloor> = 2 * e"
    by (simp only: floor_add_int[symmetric] add.commute[of "of_int (2 * e)"]) simp
  then have hi: "e \<le> \<lfloor>(of_int e :: real) * 2 + 1 / 2\<rfloor>"
    using e0 by simp
  show ?thesis
    unfolding estimateCasualtyRisk_Fin [OF p] e_def [symmetric]
    using lo hi e0 by simp
qed

lemma estimateCasualtyRisk_ordered_bounded:
  assumes "0 \<le> t" "lt damagePercent PosInf"
  shows "le (low (estimateCasualtyRisk (Fin t) damagePercent))
            (medium (estimateCasualtyRisk (Fin t) damagePercent))
       \<and> le (medium (estimateCasualtyRisk (Fin t) damagePercent))
            (high (estimateCasualtyRisk (Fin t) damagePercent))"
proof (cases damagePercent)
  case NegInf
  then have "lt damagePercent (Fin 60)"
    by simp
  then show ?thesis
    by (simp only: estimateCasualtyRisk_zero) simp
next
  case (Fin p)
  then show ?thesis
    using estimateCasualtyRisk_ordered [OF assms(1), of p] by simp
qed (use assms(2) in simp_all)

text \<open>
  \<open>estimateCasualtyRisk\<close> does not guard its arguments: a negative population gives
  negative estimates in the opposite order, a \<open>NaN\<close> argument gives \<open>NaN\<close> estimates,
  which compare false, and so does an infinite damage percentage with a population of 0
  (the product of 0 and \<open>Infinity\<close> is \<open>NaN\<close>).
\<close>

theorem estimateCasualtyRisk_claim_fails:
  "\<not> le (low (estimateCasualtyRisk (Fin (- 1000)) (Fin 100)))
          (medium (estimateCasualtyRisk (Fin (- 1000)) (Fin 100)))
   \<and> \<not> le (low (estimateCasualtyRisk NaN (Fin 100))) (medium (estimateCasualtyRisk NaN (Fin 100)))
   \<and> \<not> le (low (estimateCasualtyRisk (Fin 1000) NaN)) (medium (estimateCasualtyRisk (Fin 1000) NaN))
   \<and> \<not> le (low (estimateCasualtyRisk (Fin 0) PosInf)) (medium (estimateCasualtyRisk (Fin 0) PosInf))"
  by (simp add: estimateCasualtyRisk_def Let_def sub_def signed_inf_def)

text \<open>
  Claim C8, as the code has it. The damage percentage is bounded by \<open>10^150\<close> so that
  the square in the fatality rate stays finite in the binary64 arithmetic of the program
  (it overflows to \<open>Infinity\<close> near \<open>10^156\<close>, and \<open>Infinity\<close> times a population of 0 is
  \<open>NaN\<close>).

  For every total population and damage percentage, \<open>estimateCasualtyRisk\<close> returns
  \<open>low = medium = high = 0\<close> whenever the damage percentage is below 60. For every finite
  total population that is at least 0 and every damage percentage of at most \<open>10^150\<close>,
  the estimates satisfy \<open>low \<le> medium \<le> high\<close>.
\<close>

theorem estimateCasualtyRisk_invariants:
  "(lt damagePercent (Fin 60) \<longrightarrow>
      low (estimateCasualtyRisk totalPopulation damagePercent) = Fin 0
      \<and> medium (estimateCasualtyRisk totalPopulation damagePercent) = Fin 0
      \<and> high (estimateCasualtyRisk totalPopulation damagePercent) = Fin 0)
   \<and> (0 \<le> t \<and> le damagePercent (Fin (10 ^ 150)) \<longrightarrow>
      le (low (estimateCasualtyRisk (Fin t) damagePercent))
         (medium (estimateCasualtyRisk (Fin t) damagePercent))
      \<and> le (medium (estimateCasualtyRisk (Fin t) damagePercent))
            (high (estimateCasualtyRisk (Fin t) damagePercent)))"
  using estimateCasualtyRisk_zero [of damagePercent totalPopulation]
    estimateCasualtyRisk_ordered_bounded [of t damagePercent]
    below_bound_not_PosInf [of damagePercent "10 ^ 150"]
  by blast

theorem estimateCasualtyRisk_invariants_witness:
  "low (estimateCasualtyRisk (Fin 1000) (Fin 50)) = Fin 0
   \<and> medium (estimateCasualtyRisk (Fin 1000) (Fin 50)) = Fin 0
   \<and> high (estimateCasualtyRisk (Fin 1000) (Fin 50)) = Fin 0
   \<and> le (low (estimateCasualtyRisk (Fin 1000) (Fin 90))) (medium (estimateCasualtyRisk (Fin 1000) (Fin 90)))
   \<and> le (medium (estimateCasualtyRisk (Fin 1000) (Fin 90))) (high (estimateCasualtyRisk (Fin 1000) (Fin 90)))"
  using estimateCasualtyRisk_invariants
      [where damagePercent = "Fin 50" and totalPopulation = "Fin 1000" and t = 1000]
    estimateCasualtyRisk_invariants
      [where damagePercent = "Fin 90" and totalPopulation = "Fin 1000" and t = 1000]
  by simp

end
